theory Spec2Isabelle
  imports Main "HOL-Library.Sublist"
begin

section \<open>Python values and string operations used by app.py\<close>

text \<open>
  The exceptions the modelled code can raise. \<open>KeyError k\<close> is a read of a missing
  dictionary key \<open>k\<close>; \<open>IndexError\<close> is a list index out of range; \<open>APIError\<close>
  stands for any exception raised by \<^verbatim>\<open>client.chat.completions.create\<close>;
  \<open>EmptyInputError\<close> is raised by the graph library when a run is started without
  input and without a checkpoint to resume.
\<close>

datatype exn = KeyError string | IndexError | APIError | EmptyInputError

text \<open>
  Strings are lists of characters; a character stands for the code point of the same
  number, so the strings modelled are those of code points below 256. \<open>is_space\<close>
  lists the characters of that range that Python's \<^verbatim>\<open>str.strip()\<close> removes: tab,
  line feed, vertical tab, form feed, carriage return, the four separators 0x1C..0x1F,
  the space, the next-line control U+0085 and the no-break space U+00A0.
\<close>

definition is_space :: "char \<Rightarrow> bool" where
  "is_space c =
     (c \<in> set [CHR 0x09, CHR 0x0A, CHR 0x0B, CHR 0x0C, CHR 0x0D,
                CHR 0x1C, CHR 0x1D, CHR 0x1E, CHR 0x1F, CHR 0x20,
                CHR 0x85, CHR 0xA0])"

definition str_strip :: "string \<Rightarrow> string" where
  "str_strip s = rev (dropWhile is_space (rev (dropWhile is_space s)))"

text \<open>\<^verbatim>\<open>sub in s\<close>: \<open>sub\<close> occurs in \<open>s\<close> as a contiguous substring.\<close>

fun str_in :: "string \<Rightarrow> string \<Rightarrow> bool" where
  "str_in sub [] = (sub = [])"
| "str_in sub (c # cs) = (prefix sub (c # cs) \<or> str_in sub cs)"

text \<open>\<^verbatim>\<open>s.find(sub)\<close>: the index of the leftmost occurrence, \<open>None\<close> for Python's -1.\<close>

fun str_find :: "string \<Rightarrow> string \<Rightarrow> nat option" where
  "str_find sub [] = (if sub = [] then Some 0 else None)"
| "str_find sub (c # cs) =
     (if prefix sub (c # cs) then Some 0 else map_option Suc (str_find sub cs))"

lemma str_find_bound: "str_find sub s = Some i \<Longrightarrow> i + length sub \<le> length s"
proof (induction s arbitrary: i)
  case Nil
  then show ?case by (simp split: if_splits)
next
  case (Cons c cs)
  show ?case
  proof (cases "prefix sub (c # cs)")
    case True
    with Cons.prems have "i = 0" by simp
    with prefix_length_le [OF True] show ?thesis by simp
  next
    case False
    with Cons.prems obtain j where "str_find sub cs = Some j" "i = Suc j" by auto
    with Cons.IH [of j] show ?thesis by simp
  qed
qed

text \<open>
  \<^verbatim>\<open>s.split(sep)\<close>: cut \<open>s\<close> at the non-overlapping occurrences of \<open>sep\<close>, leftmost
  first. Python raises ValueError for an empty separator; app.py only ever passes the
  literal \<^verbatim>\<open>"ALLERGENES FOUND"\<close>, and the model returns \<open>[s]\<close> for an empty one.
\<close>

function str_split :: "string \<Rightarrow> string \<Rightarrow> string list" where
  "str_split sep s =
     (case str_find sep s of
        None \<Rightarrow> [s]
      | Some i \<Rightarrow>
          if sep = [] then [s]
          else take i s # str_split sep (drop (i + length sep) s))"
  by pat_completeness auto
termination
proof (relation "measure (\<lambda>(sep, s). length s)")
  show "wf (measure (\<lambda>(sep, s). length s))" by simp
next
  fix sep s :: string and i :: nat
  assume "str_find sep s = Some i" and "sep \<noteq> []"
  then have "i + length sep \<le> length s" and "length sep = Suc (length sep - 1)"
    by (simp_all add: str_find_bound)
  then show "((sep, drop (i + length sep) s), (sep, s)) \<in> measure (\<lambda>(sep, s). length s)"
    by simp
qed

declare str_split.simps [simp del]

text \<open>\<^verbatim>\<open>xs[i]\<close> for a non-negative index: IndexError when out of range.\<close>

definition py_index :: "'a list \<Rightarrow> nat \<Rightarrow> exn + 'a" where
  "py_index xs i = (if i < length xs then Inr (xs ! i) else Inl IndexError)"

section \<open>The workflow state and the external client\<close>

text \<open>
  \<^verbatim>\<open>class State(TypedDict)\<close>: a dictionary in which each key may be absent
  (the code tests \<^verbatim>\<open>"human_feedback" in state\<close>), so every field is optional.
\<close>

record State =
  recipe_request :: "string option"
  recipe :: "string option"
  allergenes :: "string option"
  allergenes_detected :: "bool option"
  human_feedback :: "string option"
  final_recipe :: "string option"

definition empty_dict :: State where
  "empty_dict =
     \<lparr>recipe_request = None, recipe = None, allergenes = None,
      allergenes_detected = None, human_feedback = None, final_recipe = None\<rparr>"

text \<open>
  \<^verbatim>\<open>client.chat.completions.create(...).choices[0].message.content\<close> as a function
  of the user message's content: \<open>Some text\<close> is the reply, \<open>None\<close> means the call
  raised. Every function below takes the client as a parameter, so nothing is assumed
  about what the service answers; the three requests of a session differ in their
  first character, so any combination of replies is some client.
\<close>

type_synonym client = "string \<Rightarrow> string option"

text \<open>
  What a node function did: the exception it raised (if any), the contents of the
  dictionary it was given when control left it (the functions assign into it in
  place), and the requests it sent to the client, in order.
\<close>

record outcome =
  raised :: "exn option"
  state_after :: State
  requests :: "string list"

definition generate_prompt :: "string \<Rightarrow> string" where
  "generate_prompt request = ''Generate a detailed recipe for: '' @ request"

definition analyze_prompt :: "string \<Rightarrow> string" where
  "analyze_prompt text =
     ''Analyze this recipe for common allergenes (nuts, dairy, gluten, shellfish, eggs). Only respond with 'ALLERGENES FOUND' plus the allergenes detected or 'NO ALLERGENES': ''
     @ text"

definition modify_prompt :: "string \<Rightarrow> string \<Rightarrow> string" where
  "modify_prompt text restrictions =
     ''Modify this recipe according to dietary restrictions: '' @ text
     @ ''\<newline>Restrictions: '' @ restrictions"

section \<open>The node functions\<close>

definition recipe_generator :: "client \<Rightarrow> State \<Rightarrow> outcome" where
  "recipe_generator client state =
     (case recipe_request state of
        None \<Rightarrow>
          \<lparr>raised = Some (KeyError ''recipe_request''), state_after = state, requests = []\<rparr>
      | Some request \<Rightarrow>
          (case client (generate_prompt request) of
             None \<Rightarrow>
               \<lparr>raised = Some APIError, state_after = state,
                requests = [generate_prompt request]\<rparr>
           | Some content \<Rightarrow>
               (let state1 = state\<lparr>recipe := Some content\<rparr>;
                    sent = [generate_prompt request, analyze_prompt content]
                in case client (analyze_prompt content) of
                     None \<Rightarrow> \<lparr>raised = Some APIError, state_after = state1, requests = sent\<rparr>
                   | Some check \<Rightarrow>
                       (case py_index (str_split ''ALLERGENES FOUND'' check) 1 of
                          Inl e \<Rightarrow> \<lparr>raised = Some e, state_after = state1, requests = sent\<rparr>
                        | Inr part \<Rightarrow>
                            \<lparr>raised = None,
                             state_after = state1
                               \<lparr>allergenes := Some (str_strip part),
                                allergenes_detected :=
                                  Some (str_in ''ALLERGENES FOUND'' check)\<rparr>,
                             requests = sent\<rparr>))))"

definition human_feedback_handler :: "State \<Rightarrow> outcome" where
  "human_feedback_handler state =
     \<lparr>raised = None, state_after = state\<lparr>allergenes_detected := Some False\<rparr>,
      requests = []\<rparr>"

definition recipe_finalizer :: "client \<Rightarrow> State \<Rightarrow> outcome" where
  "recipe_finalizer client state =
     (if (case human_feedback state of None \<Rightarrow> False | Some feedback \<Rightarrow> feedback \<noteq> [])
      then
        (case recipe state of
           None \<Rightarrow> \<lparr>raised = Some (KeyError ''recipe''), state_after = state, requests = []\<rparr>
         | Some text \<Rightarrow>
             (let sent = [modify_prompt text (the (human_feedback state))]
              in case client (modify_prompt text (the (human_feedback state))) of
                   None \<Rightarrow> \<lparr>raised = Some APIError, state_after = state, requests = sent\<rparr>
                 | Some content \<Rightarrow>
                     \<lparr>raised = None, state_after = state\<lparr>final_recipe := Some content\<rparr>,
                      requests = sent\<rparr>))
      else
        (case recipe state of
           None \<Rightarrow> \<lparr>raised = Some (KeyError ''recipe''), state_after = state, requests = []\<rparr>
         | Some text \<Rightarrow>
             \<lparr>raised = None, state_after = state\<lparr>final_recipe := Some text\<rparr>,
              requests = []\<rparr>))"

definition allergenes_check_condition :: "State \<Rightarrow> exn + string" where
  "allergenes_check_condition state =
     (case allergenes_detected state of
        None \<Rightarrow> Inl (KeyError ''allergenes_detected'')
      | Some detected \<Rightarrow>
          if detected then Inr ''human_feedback_handler'' else Inr ''recipe_finalizer'')"

section \<open>The graph built in app.py\<close>

text \<open>
  The calls on \<^verbatim>\<open>graph_builder\<close> (lines 74 to 89) and the arguments of
  \<^verbatim>\<open>compile\<close> (lines 99 to 102), as data. \<open>human_feedback_handler\<close> makes no
  request, so it ignores the client.
\<close>

definition START :: string where "START = ''__start__''"

definition END :: string where "END = ''__end__''"

definition nodes :: "(string \<times> (client \<Rightarrow> State \<Rightarrow> outcome)) list" where
  "nodes =
     [(''recipe_generator'', recipe_generator),
      (''human_feedback_handler'', \<lambda>client. human_feedback_handler),
      (''recipe_finalizer'', recipe_finalizer)]"

definition edges :: "(string \<times> string) list" where
  "edges =
     [(START, ''recipe_generator''),
      (''human_feedback_handler'', ''recipe_finalizer''),
      (''recipe_finalizer'', END)]"

definition conditional_edges ::
  "(string \<times> (State \<Rightarrow> exn + string) \<times> (string \<times> string) list) list" where
  "conditional_edges =
     [(''recipe_generator'', allergenes_check_condition,
       [(''human_feedback_handler'', ''human_feedback_handler''),
        (''recipe_finalizer'', ''recipe_finalizer'')])]"

definition interrupt_before :: "string list" where
  "interrupt_before = [''human_feedback_handler'']"

section \<open>The compiled graph: checkpoints and the run loop\<close>

text \<open>
  Modelled from the spec: the run loop of the compiled graph, its checkpointer
  (\<^verbatim>\<open>MemorySaver\<close>) and the operations \<^verbatim>\<open>stream\<close>, \<^verbatim>\<open>get_state\<close> and
  \<^verbatim>\<open>update_state\<close> belong to the graph library, whose code is not part of the
  repository. They follow section 4.5 of the specification, steps 3 to 5 (run the
  node, compute the next node through the condition on a conditional edge and through
  the single outgoing edge otherwise, persist; stop before a node of
  \<open>interrupt_before\<close>; finish after the node whose edge leads to \<open>END\<close>), applied to the
  graph data above. A node that raises leaves the checkpoint as it was before the node.

  A checkpoint holds the values of the state keys written so far and the node that
  runs next (none when the run has finished).
\<close>

record checkpoint =
  channel_values :: State
  next_nodes :: "string list"

type_synonym MemorySaver = "string \<rightharpoonup> checkpoint"

text \<open>A node returns a dictionary; each key present in it overwrites the stored value.\<close>

definition apply_writes :: "State \<Rightarrow> State \<Rightarrow> State" where
  "apply_writes old written =
     \<lparr>recipe_request = (case recipe_request written of None \<Rightarrow> recipe_request old | Some v \<Rightarrow> Some v),
      recipe = (case recipe written of None \<Rightarrow> recipe old | Some v \<Rightarrow> Some v),
      allergenes = (case allergenes written of None \<Rightarrow> allergenes old | Some v \<Rightarrow> Some v),
      allergenes_detected =
        (case allergenes_detected written of None \<Rightarrow> allergenes_detected old | Some v \<Rightarrow> Some v),
      human_feedback =
        (case human_feedback written of None \<Rightarrow> human_feedback old | Some v \<Rightarrow> Some v),
      final_recipe = (case final_recipe written of None \<Rightarrow> final_recipe old | Some v \<Rightarrow> Some v)\<rparr>"

text \<open>The node that follows \<open>name\<close> when the state holds \<open>vals\<close>.\<close>

definition successor :: "string \<Rightarrow> State \<Rightarrow> exn + string" where
  "successor name vals =
     (case map_of conditional_edges name of
        Some (condition, path_map) \<Rightarrow>
          (case condition vals of
             Inl e \<Rightarrow> Inl e
           | Inr label \<Rightarrow>
               (case map_of path_map label of
                  None \<Rightarrow> Inl (KeyError label)
                | Some target \<Rightarrow> Inr target))
      | None \<Rightarrow>
          (case map_of edges name of
             None \<Rightarrow> Inr END
           | Some target \<Rightarrow> Inr target))"

text \<open>
  One streamed update: the node that ran, the dictionary it returned, and the values
  \<^verbatim>\<open>get_state\<close> shows while the caller handles the update.
\<close>

record event =
  node :: string
  returned :: State
  shown :: State

text \<open>
  A run: the updates it streamed, the exception that ended it (if any), the checkpoint
  it left, the requests sent to the client and the nodes whose function was called.
\<close>

record run =
  events :: "event list"
  failure :: "exn option"
  resting :: checkpoint
  sent :: "string list"
  ran :: "string list"

text \<open>
  The number of nodes on the longest path from a node to \<open>END\<close>; it decreases along
  every edge, which is why the run loop ends.
\<close>

definition depth :: "string list \<Rightarrow> nat" where
  "depth pending =
     (case pending of
        [] \<Rightarrow> 0
      | name # _ \<Rightarrow>
          if name = ''recipe_generator'' then 3
          else if name = ''human_feedback_handler'' then 2
          else if name = ''recipe_finalizer'' then 1
          else 0)"

lemma node_names:
  "map_of nodes name = Some f \<Longrightarrow>
   name = ''recipe_generator'' \<or> name = ''human_feedback_handler'' \<or> name = ''recipe_finalizer''"
  by (simp add: nodes_def split: if_splits)

lemma successor_generator:
  "successor ''recipe_generator'' vals = Inr target \<Longrightarrow>
   target = ''human_feedback_handler'' \<or> target = ''recipe_finalizer''"
  by (simp add: successor_def conditional_edges_def allergenes_check_condition_def
      split: option.splits if_splits bool.splits)

lemma successor_handler: "successor ''human_feedback_handler'' vals = Inr ''recipe_finalizer''"
  by (simp add: successor_def conditional_edges_def edges_def START_def)

lemma successor_finalizer: "successor ''recipe_finalizer'' vals = Inr END"
  by (simp add: successor_def conditional_edges_def edges_def START_def)

lemma depth_decreases:
  assumes "map_of nodes name = Some f" and "successor name vals = Inr target"
  shows "depth (if target = END then [] else [target]) < depth (name # pending)"
proof -
  consider "name = ''recipe_generator''" | "name = ''human_feedback_handler''"
    | "name = ''recipe_finalizer''"
    using node_names [OF assms(1)] by blast
  then show ?thesis
  proof cases
    case 1
    with assms(2) successor_generator [of vals target]
    have "target = ''human_feedback_handler'' \<or> target = ''recipe_finalizer''" by simp
    with 1 show ?thesis by (auto simp: depth_def END_def)
  next
    case 2
    with assms(2) have "target = ''recipe_finalizer''" by (simp add: successor_handler)
    with 2 show ?thesis by (simp add: depth_def END_def)
  next
    case 3
    with assms(2) have "target = END" by (simp add: successor_finalizer)
    with 3 show ?thesis by (simp add: depth_def)
  qed
qed

function run_loop :: "client \<Rightarrow> bool \<Rightarrow> checkpoint \<Rightarrow> run" where
  "run_loop client resuming cp =
     (case next_nodes cp of
        [] \<Rightarrow> \<lparr>events = [], failure = None, resting = cp, sent = [], ran = []\<rparr>
      | name # _ \<Rightarrow>
          if \<not> resuming \<and> name \<in> set interrupt_before
          then \<lparr>events = [], failure = None, resting = cp, sent = [], ran = []\<rparr>
          else
            (case map_of nodes name of
               None \<Rightarrow>
                 \<lparr>events = [], failure = Some (KeyError name), resting = cp, sent = [], ran = []\<rparr>
             | Some f \<Rightarrow>
                 (case raised (f client (channel_values cp)) of
                    Some e \<Rightarrow>
                      \<lparr>events = [], failure = Some e, resting = cp,
                       sent = requests (f client (channel_values cp)), ran = [name]\<rparr>
                  | None \<Rightarrow>
                      (case successor name
                              (apply_writes (channel_values cp)
                                 (state_after (f client (channel_values cp)))) of
                         Inl e \<Rightarrow>
                           \<lparr>events = [], failure = Some e, resting = cp,
                            sent = requests (f client (channel_values cp)), ran = [name]\<rparr>
                       | Inr target \<Rightarrow>
                           (let out = f client (channel_values cp);
                                vals = apply_writes (channel_values cp) (state_after out);
                                rest =
                                  run_loop client False
                                    \<lparr>channel_values = vals,
                                     next_nodes = (if target = END then [] else [target])\<rparr>
                            in rest
                                 \<lparr>events :=
                                    \<lparr>node = name, returned = state_after out, shown = vals\<rparr>
                                    # events rest,
                                  sent := requests out @ sent rest,
                                  ran := name # ran rest\<rparr>)))))"
  by pat_completeness auto
termination
proof (relation "measure (\<lambda>(client, resuming, cp). depth (next_nodes cp))")
  show "wf (measure (\<lambda>(client, resuming, cp). depth (next_nodes cp)))" by simp
next
  fix client :: client and resuming :: bool and cp :: checkpoint and name :: string
    and pending :: "string list" and f :: "client \<Rightarrow> State \<Rightarrow> outcome"
    and target :: string and out vals :: State
  assume "next_nodes cp = name # pending" and "map_of nodes name = Some f"
    and "successor name
           (apply_writes (channel_values cp) (state_after (f client (channel_values cp))))
         = Inr target"
  then show "((client, False,
                \<lparr>channel_values = vals, next_nodes = if target = END then [] else [target]\<rparr>),
               (client, resuming, cp))
             \<in> measure (\<lambda>(client, resuming, cp). depth (next_nodes cp))"
    using depth_decreases [of name f _ target pending] by simp
qed

declare run_loop.simps [simp del]

text \<open>
  \<open>thread_values\<close> is \<^verbatim>\<open>graph.get_state(config).values\<close>: the values of the thread's
  checkpoint, the empty dictionary when there is none.

  \<^verbatim>\<open>graph.stream(input, config)\<close> for the thread of \<open>config\<close>. With an input, a new run
  starts at the node after \<open>START\<close>, on the thread's values overwritten by the input.
  With \<^verbatim>\<open>None\<close>, the run resumes at the pending node of the thread's checkpoint, which
  is then not interrupted again; a thread without checkpoint has nothing to resume. The
  result is the run and the checkpointer afterwards.
\<close>

definition thread_values :: "MemorySaver \<Rightarrow> string \<Rightarrow> State" where
  "thread_values memory thread =
     (case memory thread of None \<Rightarrow> empty_dict | Some cp \<Rightarrow> channel_values cp)"

definition stream ::
  "client \<Rightarrow> State option \<Rightarrow> string \<Rightarrow> MemorySaver \<Rightarrow> run \<times> MemorySaver" where
  "stream client input thread memory =
     (case input of
        Some written \<Rightarrow>
          (let r = run_loop client False
                     \<lparr>channel_values = apply_writes (thread_values memory thread) written,
                      next_nodes = (case map_of edges START of None \<Rightarrow> [] | Some n \<Rightarrow> [n])\<rparr>
           in (r, memory(thread \<mapsto> resting r)))
      | None \<Rightarrow>
          (case memory thread of
             None \<Rightarrow>
               (\<lparr>events = [], failure = Some EmptyInputError,
                 resting = \<lparr>channel_values = empty_dict, next_nodes = []\<rparr>,
                 sent = [], ran = []\<rparr>, memory)
           | Some cp \<Rightarrow>
               (let r = run_loop client True cp in (r, memory(thread \<mapsto> resting r)))))"

text \<open>
  \<^verbatim>\<open>graph.update_state(config, values)\<close>: the values overwrite those of the thread's
  checkpoint, and the pending node stays. On a thread without checkpoint they become
  its first checkpoint, with the entry node pending.
\<close>

definition update_state :: "MemorySaver \<Rightarrow> string \<Rightarrow> State \<Rightarrow> MemorySaver" where
  "update_state memory thread vals =
     (case memory thread of
        None \<Rightarrow>
          memory(thread \<mapsto>
            \<lparr>channel_values = vals,
             next_nodes = (case map_of edges START of None \<Rightarrow> [] | Some n \<Rightarrow> [n])\<rparr>)
      | Some cp \<Rightarrow>
          memory(thread \<mapsto> cp\<lparr>channel_values := apply_writes (channel_values cp) vals\<rparr>))"

section \<open>The request handler\<close>

text \<open>
  The chat history is a list of pairs (user message or \<^verbatim>\<open>None\<close>, reply). The body of
  the \<^verbatim>\<open>for\<close> loop of \<open>process_request\<close> (lines 150 to 157) for one streamed update:
  subscripting a missing key raises KeyError.
\<close>

type_synonym history = "(string option \<times> string) list"

definition handle_event :: "history \<Rightarrow> event \<Rightarrow> exn + history" where
  "handle_event history ev =
     (if node ev = ''recipe_generator'' then
        (case allergenes_detected (returned ev) of
           None \<Rightarrow> Inl (KeyError ''allergenes_detected'')
         | Some detected \<Rightarrow>
             if detected then
               (case allergenes (returned ev) of
                  None \<Rightarrow> Inl (KeyError ''allergenes'')
                | Some found \<Rightarrow>
                    Inr (history @
                      [(None,
                        ''Are you allergic to any of the following ingredients:\<newline>''
                        @ drop 2 found @ ''\<newline>If so, please specify which ones.'')]))
             else
               (case recipe (returned ev) of
                  None \<Rightarrow> Inl (KeyError ''recipe'')
                | Some text \<Rightarrow> Inr (history @ [(None, text)])))
      else if node ev = ''recipe_finalizer'' then
        (case final_recipe (returned ev) of
           None \<Rightarrow> Inl (KeyError ''final_recipe'')
         | Some text \<Rightarrow>
             Inr (history @ [(None, ''Here's your final recipe:\<newline>\<newline>'' @ text)]))
      else Inr history)"

text \<open>
  The \<^verbatim>\<open>for\<close> loop: each update sets \<open>state\<close> to the values \<^verbatim>\<open>get_state\<close> shows, is
  handled, and the triple (history, state, user id) is yielded. The result is the
  list of yielded triples and the exception raised while handling, if any.
\<close>

fun consume ::
  "history \<Rightarrow> string \<Rightarrow> event list \<Rightarrow> (history \<times> State \<times> string) list \<times> exn option" where
  "consume history uid [] = ([], None)"
| "consume history uid (ev # evs) =
     (case handle_event history ev of
        Inl e \<Rightarrow> ([], Some e)
      | Inr history' \<Rightarrow>
          (case consume history' uid evs of
             (ys, e) \<Rightarrow> ((history', shown ev, uid) # ys, e)))"

text \<open>
  What one call of \<open>process_request\<close> did: the triples it yielded (the interface shows
  the last one), the exception that ended it (if any), the checkpointer afterwards,
  the requests sent to the client and the nodes that were run.
\<close>

record response =
  yielded :: "(history \<times> State \<times> string) list"
  error :: "exn option"
  saver :: MemorySaver
  asked :: "string list"
  executed :: "string list"

text \<open>
  \<open>process_request\<close> (lines 132 to 158). \<open>uuid4\<close> is the identifier
  \<^verbatim>\<open>str(uuid.uuid4())\<close> would produce, \<open>memory\<close> the checkpointer of the compiled
  graph. \<^verbatim>\<open>not state\<close> holds for \<^verbatim>\<open>None\<close> and for the empty dictionary,
  \<^verbatim>\<open>not user_id\<close> for \<^verbatim>\<open>None\<close> and for the empty string.
\<close>

definition process_request ::
  "client \<Rightarrow> string \<Rightarrow> MemorySaver \<Rightarrow> string \<Rightarrow> history \<Rightarrow> State option \<Rightarrow> string option
   \<Rightarrow> response" where
  "process_request client uuid4 memory message history state user_id =
     (let uid = (case user_id of None \<Rightarrow> uuid4 | Some u \<Rightarrow> if u = [] then uuid4 else u);
          before =
            (case state of
               None \<Rightarrow>
                 ([(Some message, ''Generating recipe...'')],
                  empty_dict\<lparr>recipe_request := Some message\<rparr>, memory)
             | Some st \<Rightarrow>
                 if st = empty_dict then
                   ([(Some message, ''Generating recipe...'')],
                    empty_dict\<lparr>recipe_request := Some message\<rparr>, memory)
                 else if allergenes_detected st = Some True then
                   (history @ [(Some message, ''Updating recipe...'')],
                    st\<lparr>human_feedback := Some message\<rparr>,
                    update_state memory uid (st\<lparr>human_feedback := Some message\<rparr>))
                 else (history, st, memory))
      in case before of
           (history1, state1, memory1) \<Rightarrow>
             (case stream client
                     (if human_feedback state1 \<noteq> None then None else Some state1) uid memory1 of
                (r, memory2) \<Rightarrow>
                  (case consume history1 uid (events r) of
                     (ys, e) \<Rightarrow>
                       \<lparr>yielded = (history1, state1, uid) # ys,
                        error = (case e of None \<Rightarrow> failure r | Some x \<Rightarrow> Some x),
                        saver = memory2,
                        asked = sent r,
                        executed = ran r\<rparr>)))"

section \<open>Scenarios\<close>

text \<open>
  A client for the scenarios below: it answers a generation request with \<open>draft\<close>, an
  analysis request with \<open>check\<close> and any other request with \<open>revision\<close>.
\<close>

definition scripted :: "string \<Rightarrow> string \<Rightarrow> string \<Rightarrow> client" where
  "scripted draft check revision request =
     (if prefix ''Generate'' request then Some draft
      else if prefix ''Analyze'' request then Some check
      else Some revision)"

text \<open>The state \<open>process_request\<close> builds for a first message.\<close>

definition initial_state :: "string \<Rightarrow> State" where
  "initial_state message = empty_dict\<lparr>recipe_request := Some message\<rparr>"

text \<open>
  A session of three calls with one client: a first request, a second call that
  carries the feedback, and a third call after that. Each call receives what the
  interface holds after the previous one: the checkpointer, and the history, state
  and user id of the last yield.
\<close>

definition cookies :: client where
  "cookies = scripted ''Cookies'' ''ALLERGENES FOUND: dairy, eggs'' ''Vegan cookies''"

definition first_call :: response where
  "first_call = process_request cookies ''u1'' Map.empty ''chocolate cookies'' [] None None"

definition second_call :: response where
  "second_call =
     process_request cookies ''u1'' (saver first_call) ''no dairy please''
       (fst (last (yielded first_call)))
       (Some (fst (snd (last (yielded first_call)))))
       (Some (snd (snd (last (yielded first_call)))))"

definition third_call :: response where
  "third_call =
     process_request cookies ''u1'' (saver second_call) ''anything''
       (fst (last (yielded second_call)))
       (Some (fst (snd (last (yielded second_call)))))
       (Some (snd (snd (last (yielded second_call)))))"

text \<open>
  A first request that fails in \<open>recipe_generator\<close>, and the same request sent again
  with what the interface holds after the failure.
\<close>

definition failed_call :: response where
  "failed_call =
     process_request (scripted ''Lemon cake'' ''NO ALLERGENES'' []) ''u1'' Map.empty
       ''lemon cake'' [] None None"

definition retry_call :: response where
  "retry_call =
     process_request (scripted ''Lemon cake'' ''NO ALLERGENES'' []) ''u2'' (saver failed_call)
       ''lemon cake''
       (fst (last (yielded failed_call)))
       (Some (fst (snd (last (yielded failed_call)))))
       (Some (snd (snd (last (yielded failed_call)))))"

section \<open>Facts about the string operations\<close>

lemma str_find_None_iff: "(str_find sub s = None) = (\<not> str_in sub s)"
  by (induction s) auto

lemma str_find_Some_in: "str_find sub s = Some i \<Longrightarrow> str_in sub s"
  using str_find_None_iff [of sub s] by simp

lemma str_split_not_Nil: "str_split sep s \<noteq> []"
  by (subst str_split.simps) (simp split: option.splits)

lemma py_index_split:
  assumes "sep \<noteq> []"
  shows "py_index (str_split sep s) (Suc 0) =
    (case str_find sep s of
       None \<Rightarrow> Inl IndexError
     | Some i \<Rightarrow> Inr (hd (str_split sep (drop (i + length sep) s))))"
proof (cases "str_find sep s")
  case None
  then show ?thesis by (subst str_split.simps) (simp add: py_index_def)
next
  case (Some i)
  obtain x xs where "str_split sep (drop (i + length sep) s) = x # xs"
    using str_split_not_Nil [of sep "drop (i + length sep) s"]
    by (cases "str_split sep (drop (i + length sep) s)") auto
  with Some assms show ?thesis by (subst str_split.simps) (simp add: py_index_def)
qed

lemma scripted_generate [simp]: "scripted d c r (generate_prompt x) = Some d"
  by (simp add: scripted_def generate_prompt_def)

lemma scripted_analyze [simp]: "scripted d c r (analyze_prompt x) = Some c"
  by (simp add: scripted_def analyze_prompt_def)

lemma scripted_modify [simp]: "scripted d c r (modify_prompt x y) = Some r"
  by (simp add: scripted_def modify_prompt_def)

section \<open>The generate step\<close>

text \<open>
  When \<open>recipe_generator\<close> returns, the reply to the analysis request contained the
  marker, and the state it returns is the given one with three keys written.
\<close>

lemma generator_on_marker:
  assumes "recipe_request state = Some request"
    and "client (generate_prompt request) = Some content"
    and "client (analyze_prompt content) = Some check"
    and "str_find ''ALLERGENES FOUND'' check = Some i"
  shows "recipe_generator client state =
       \<lparr>raised = None,
        state_after = state
          \<lparr>recipe := Some content,
           allergenes :=
             Some (str_strip (hd (str_split ''ALLERGENES FOUND'' (drop (i + length ''ALLERGENES FOUND'') check)))),
           allergenes_detected := Some True\<rparr>,
        requests = [generate_prompt request, analyze_prompt content]\<rparr>"
  using assms str_find_Some_in [OF assms(4)]
  by (simp add: recipe_generator_def Let_def py_index_split)

lemma generator_returns_ex:
  assumes "raised (recipe_generator client state) = None"
  shows "\<exists>request content check i.
    recipe_request state = Some request \<and> client (generate_prompt request) = Some content \<and>
    client (analyze_prompt content) = Some check \<and>
    str_find ''ALLERGENES FOUND'' check = Some i"
  using assms
  by (auto simp: recipe_generator_def Let_def py_index_split split: option.splits sum.splits)

lemma generator_returns:
  assumes "raised (recipe_generator client state) = None"
  obtains request content check i where
    "recipe_request state = Some request"
    "client (generate_prompt request) = Some content"
    "client (analyze_prompt content) = Some check"
    "str_find ''ALLERGENES FOUND'' check = Some i"
    "recipe_generator client state =
       \<lparr>raised = None,
        state_after = state
          \<lparr>recipe := Some content,
           allergenes :=
             Some (str_strip (hd (str_split ''ALLERGENES FOUND''
                                    (drop (i + length ''ALLERGENES FOUND'') check)))),
           allergenes_detected := Some True\<rparr>,
        requests = [generate_prompt request, analyze_prompt content]\<rparr>"
  using generator_returns_ex [OF assms] generator_on_marker [of state _ client] by blast

lemma generator_without_marker:
  assumes "recipe_request state = Some request"
    and "client (generate_prompt request) = Some content"
    and "client (analyze_prompt content) = Some check"
    and "str_find ''ALLERGENES FOUND'' check = None"
  shows "recipe_generator client state =
       \<lparr>raised = Some IndexError, state_after = state\<lparr>recipe := Some content\<rparr>,
        requests = [generate_prompt request, analyze_prompt content]\<rparr>"
  using assms by (simp add: recipe_generator_def Let_def py_index_split)

lemma generator_next_node:
  assumes "raised (recipe_generator client state) = None"
  shows "successor ''recipe_generator''
           (apply_writes old (state_after (recipe_generator client state)))
         = Inr ''human_feedback_handler''"
proof -
  from assms
  have "allergenes_detected (state_after (recipe_generator client state)) = Some True"
    by (rule generator_returns) simp
  then show ?thesis
    by (simp add: successor_def conditional_edges_def allergenes_check_condition_def
        apply_writes_def)
qed

text \<open>
  C2. Whenever \<open>recipe_generator\<close> returns without raising, the reply to the analysis
  request contained the marker \<^verbatim>\<open>ALLERGENES FOUND\<close>, \<open>allergenes_detected\<close> is true,
  and the condition sends the run to \<open>human_feedback_handler\<close>: the edge from the
  generator straight to \<open>recipe_finalizer\<close> is never taken after a run that returned.
\<close>

theorem generator_return_detects:
  assumes "raised (recipe_generator client state) = None"
  shows "allergenes_detected (state_after (recipe_generator client state)) = Some True
    \<and> (\<exists>request content check.
          recipe_request state = Some request
          \<and> client (generate_prompt request) = Some content
          \<and> client (analyze_prompt content) = Some check
          \<and> str_in ''ALLERGENES FOUND'' check)
    \<and> allergenes_check_condition (state_after (recipe_generator client state))
        = Inr ''human_feedback_handler''
    \<and> successor ''recipe_generator''
          (apply_writes old (state_after (recipe_generator client state)))
        = Inr ''human_feedback_handler''"
proof -
  from assms obtain request content check i where
    found: "recipe_request state = Some request"
      "client (generate_prompt request) = Some content"
      "client (analyze_prompt content) = Some check"
      "str_find ''ALLERGENES FOUND'' check = Some i"
    and result: "allergenes_detected (state_after (recipe_generator client state)) = Some True"
    by (rule generator_returns) simp
  from found have "\<exists>request content check.
      recipe_request state = Some request
      \<and> client (generate_prompt request) = Some content
      \<and> client (analyze_prompt content) = Some check
      \<and> str_in ''ALLERGENES FOUND'' check"
    using str_find_Some_in by blast
  moreover from result
  have "allergenes_check_condition (state_after (recipe_generator client state))
        = Inr ''human_feedback_handler''"
    by (simp add: allergenes_check_condition_def)
  moreover from result
  have "successor ''recipe_generator''
          (apply_writes old (state_after (recipe_generator client state)))
        = Inr ''human_feedback_handler''"
    by (simp add: successor_def conditional_edges_def allergenes_check_condition_def
        apply_writes_def)
  ultimately show ?thesis using result by simp
qed

theorem generator_return_detects_witness:
  "raised (recipe_generator (scripted ''Cake'' ''ALLERGENES FOUND: dairy, eggs'' ''Vegan cake'')
             (initial_state ''lemon cake'')) = None
   \<and> allergenes_detected
        (state_after
           (recipe_generator (scripted ''Cake'' ''ALLERGENES FOUND: dairy, eggs'' ''Vegan cake'')
              (initial_state ''lemon cake''))) = Some True"
proof -
  have "raised (recipe_generator (scripted ''Cake'' ''ALLERGENES FOUND: dairy, eggs'' ''Vegan cake'')
             (initial_state ''lemon cake'')) = None"
    by (subst generator_on_marker [where request = "''lemon cake''" and content = "''Cake''"
          and check = "''ALLERGENES FOUND: dairy, eggs''" and i = 0])
       (simp_all add: initial_state_def empty_dict_def)
  with generator_return_detects [OF this] show ?thesis by simp
qed

text \<open>
  C10. On every state that holds \<open>allergenes_detected\<close>, the condition returns a
  label and does not raise: the one of \<open>human_feedback_handler\<close> if the flag is true
  and the one of \<open>recipe_finalizer\<close> if it is false, and the path map of the
  conditional edge sends each label to the node of that name. Every state that a
  returning \<open>recipe_generator\<close> produces holds the flag, so the condition is total on
  the states it is evaluated on.
\<close>

theorem condition_routes_by_flag:
  "(\<forall>b. allergenes_detected state = Some b \<longrightarrow>
        allergenes_check_condition state
          = Inr (if b then ''human_feedback_handler'' else ''recipe_finalizer'')
      \<and> successor ''recipe_generator'' state
          = Inr (if b then ''human_feedback_handler'' else ''recipe_finalizer''))
   \<and> (raised (recipe_generator client given) = None \<longrightarrow>
        allergenes_detected (state_after (recipe_generator client given)) \<noteq> None)"
proof -
  have "allergenes_detected (state_after (recipe_generator client given)) \<noteq> None"
    if "raised (recipe_generator client given) = None"
    using that by (rule generator_returns) simp
  then show ?thesis
    by (simp add: allergenes_check_condition_def successor_def conditional_edges_def)
qed

theorem condition_routes_by_flag_witness:
  "allergenes_check_condition
     (empty_dict\<lparr>recipe := Some ''Bread'', allergenes_detected := Some True\<rparr>)
   = Inr ''human_feedback_handler''
   \<and> allergenes_check_condition
       (empty_dict\<lparr>recipe := Some ''Bread'', allergenes_detected := Some False\<rparr>)
     = Inr ''recipe_finalizer''
   \<and> successor ''recipe_generator''
       (empty_dict\<lparr>recipe := Some ''Bread'', allergenes_detected := Some False\<rparr>)
     = Inr ''recipe_finalizer''
   \<and> raised (recipe_generator (scripted ''Bread'' ''ALLERGENES FOUND gluten'' ''Rice bread'')
               (initial_state ''banana bread'')) = None
   \<and> allergenes_check_condition
        (state_after
           (recipe_generator (scripted ''Bread'' ''ALLERGENES FOUND gluten'' ''Rice bread'')
              (initial_state ''banana bread''))) = Inr ''human_feedback_handler''"
proof -
  let ?out = "recipe_generator (scripted ''Bread'' ''ALLERGENES FOUND gluten'' ''Rice bread'')
       (initial_state ''banana bread'')"
  have returned:
    "?out
     = \<lparr>raised = None,
        state_after = (initial_state ''banana bread'')
          \<lparr>recipe := Some ''Bread'',
           allergenes :=
             Some (str_strip (hd (str_split ''ALLERGENES FOUND''
                                    (drop (0 + length ''ALLERGENES FOUND'')
                                       ''ALLERGENES FOUND gluten'')))),
           allergenes_detected := Some True\<rparr>,
        requests = [generate_prompt ''banana bread'', analyze_prompt ''Bread'']\<rparr>"
    by (rule generator_on_marker) (simp_all add: initial_state_def empty_dict_def)
  then have flagged: "allergenes_detected (state_after ?out) = Some True"
    and no_exception: "raised ?out = None"
    by simp_all
  note on_true =
    condition_routes_by_flag
      [of "empty_dict\<lparr>recipe := Some ''Bread'', allergenes_detected := Some True\<rparr>",
       THEN conjunct1, rule_format, of True]
  note on_false =
    condition_routes_by_flag
      [of "empty_dict\<lparr>recipe := Some ''Bread'', allergenes_detected := Some False\<rparr>",
       THEN conjunct1, rule_format, of False]
  note on_generated =
    condition_routes_by_flag [of "state_after ?out", THEN conjunct1, rule_format, OF flagged]
  from on_true on_false on_generated no_exception
  show ?thesis by simp
qed

section \<open>The finalize step and the feedback node\<close>

text \<open>
  C7. On a state that holds a recipe, \<open>recipe_finalizer\<close> with a present, non-empty
  \<open>human_feedback\<close> sends exactly one request, built from the recipe and the feedback
  alone, and writes the reply into \<open>final_recipe\<close>; with \<open>human_feedback\<close> absent or
  empty it sends no request and writes the recipe itself into \<open>final_recipe\<close>.
\<close>

theorem finalizer_result:
  assumes "recipe state = Some draft"
  shows "(\<forall>feedback revision.
            human_feedback state = Some feedback \<and> feedback \<noteq> []
            \<and> client (modify_prompt draft feedback) = Some revision
            \<longrightarrow> recipe_finalizer client state =
                  \<lparr>raised = None, state_after = state\<lparr>final_recipe := Some revision\<rparr>,
                   requests = [modify_prompt draft feedback]\<rparr>)
    \<and> (human_feedback state = None \<or> human_feedback state = Some []
         \<longrightarrow> recipe_finalizer client state =
               \<lparr>raised = None, state_after = state\<lparr>final_recipe := Some draft\<rparr>,
                requests = []\<rparr>)"
  using assms by (auto simp: recipe_finalizer_def Let_def)

theorem finalizer_result_witness:
  "recipe_finalizer (scripted ''Cake'' ''ALLERGENES FOUND: dairy'' ''Vegan cake'')
     (empty_dict\<lparr>recipe := Some ''Cake'', human_feedback := Some ''no dairy please''\<rparr>)
   = \<lparr>raised = None,
      state_after =
        empty_dict\<lparr>recipe := Some ''Cake'', human_feedback := Some ''no dairy please'',
                   final_recipe := Some ''Vegan cake''\<rparr>,
      requests = [modify_prompt ''Cake'' ''no dairy please'']\<rparr>
   \<and> recipe_finalizer (scripted ''Cake'' ''ALLERGENES FOUND: dairy'' ''Vegan cake'')
       (empty_dict\<lparr>recipe := Some ''Cake'', human_feedback := Some []\<rparr>)
     = \<lparr>raised = None,
        state_after =
          empty_dict\<lparr>recipe := Some ''Cake'', human_feedback := Some [],
                     final_recipe := Some ''Cake''\<rparr>,
        requests = []\<rparr>"
  using
    finalizer_result [of "empty_dict\<lparr>recipe := Some ''Cake'',
        human_feedback := Some ''no dairy please''\<rparr>" "''Cake''"
      "scripted ''Cake'' ''ALLERGENES FOUND: dairy'' ''Vegan cake''"]
    finalizer_result [of "empty_dict\<lparr>recipe := Some ''Cake'', human_feedback := Some []\<rparr>"
      "''Cake''" "scripted ''Cake'' ''ALLERGENES FOUND: dairy'' ''Vegan cake''"]
  by simp

text \<open>
  C4, as stated: the feedback node leaves \<open>allergenes_detected\<close> unchanged. It does
  not: on a state in which the flag is true, \<open>human_feedback_handler\<close> returns it false.
\<close>

theorem handler_changes_flag:
  "allergenes_detected
     (state_after (human_feedback_handler (empty_dict\<lparr>allergenes_detected := Some True\<rparr>)))
   \<noteq> allergenes_detected (empty_dict\<lparr>allergenes_detected := Some True\<rparr>)"
  by (simp add: human_feedback_handler_def)

text \<open>
  C4, amended. \<open>allergenes_detected\<close> is written by \<open>recipe_generator\<close>, which on
  returning sets it to whether the reply to the analysis request contains the marker,
  and again by \<open>human_feedback_handler\<close>, which sets it to false, changes no other
  key, sends no request and never raises; \<open>recipe_finalizer\<close> never changes it.
\<close>

theorem flag_writers:
  "(\<forall>request content check.
       recipe_request state = Some request
       \<and> client (generate_prompt request) = Some content
       \<and> client (analyze_prompt content) = Some check
       \<and> raised (recipe_generator client state) = None
       \<longrightarrow> allergenes_detected (state_after (recipe_generator client state))
            = Some (str_in ''ALLERGENES FOUND'' check))
   \<and> human_feedback_handler state =
     \<lparr>raised = None, state_after = state\<lparr>allergenes_detected := Some False\<rparr>, requests = []\<rparr>
   \<and> allergenes_detected (state_after (recipe_finalizer client state))
     = allergenes_detected state"
proof -
  have "allergenes_detected (state_after (recipe_generator client state))
        = Some (str_in ''ALLERGENES FOUND'' check)"
    if "recipe_request state = Some request"
      and "client (generate_prompt request) = Some content"
      and "client (analyze_prompt content) = Some check"
      and "raised (recipe_generator client state) = None"
    for request content check
    using that by (simp add: recipe_generator_def Let_def split: sum.splits)
  then show ?thesis
    by (simp add: human_feedback_handler_def recipe_finalizer_def Let_def split: option.splits)
qed

theorem flag_writers_witness:
  "raised (recipe_generator (scripted ''Cake'' ''ALLERGENES FOUND: dairy, eggs'' ''Vegan cake'')
             (initial_state ''lemon cake'')) = None
   \<and> allergenes_detected
        (state_after
           (recipe_generator (scripted ''Cake'' ''ALLERGENES FOUND: dairy, eggs'' ''Vegan cake'')
              (initial_state ''lemon cake'')))
      = Some (str_in ''ALLERGENES FOUND'' ''ALLERGENES FOUND: dairy, eggs'')
   \<and> allergenes_detected
        (state_after (human_feedback_handler
           ((initial_state ''lemon cake'')\<lparr>allergenes_detected := Some True\<rparr>)))
      = Some False"
proof -
  let ?client = "scripted ''Cake'' ''ALLERGENES FOUND: dairy, eggs'' ''Vegan cake''"
  have returned: "raised (recipe_generator ?client (initial_state ''lemon cake'')) = None"
    by (subst generator_on_marker [where request = "''lemon cake''" and content = "''Cake''"
          and check = "''ALLERGENES FOUND: dairy, eggs''" and i = 0])
       (simp_all add: initial_state_def empty_dict_def)
  have request: "recipe_request (initial_state ''lemon cake'') = Some ''lemon cake''"
    by (simp add: initial_state_def)
  have draft: "?client (generate_prompt ''lemon cake'') = Some ''Cake''"
    and reply: "?client (analyze_prompt ''Cake'') = Some ''ALLERGENES FOUND: dairy, eggs''"
    by simp_all
  from flag_writers [of "initial_state ''lemon cake''" ?client] request draft reply returned
  have "allergenes_detected (state_after (recipe_generator ?client (initial_state ''lemon cake'')))
      = Some (str_in ''ALLERGENES FOUND'' ''ALLERGENES FOUND: dairy, eggs'')"
    by blast
  moreover
  from flag_writers [of "(initial_state ''lemon cake'')\<lparr>allergenes_detected := Some True\<rparr>"
      ?client]
  have "allergenes_detected
        (state_after (human_feedback_handler
           ((initial_state ''lemon cake'')\<lparr>allergenes_detected := Some True\<rparr>)))
      = Some False"
    by simp
  ultimately show ?thesis using returned by blast
qed

section \<open>The run loop on this graph\<close>

lemma apply_writes_extends:
  assumes "recipe_request new = None \<longrightarrow> recipe_request old = None"
    and "recipe new = None \<longrightarrow> recipe old = None"
    and "allergenes new = None \<longrightarrow> allergenes old = None"
    and "allergenes_detected new = None \<longrightarrow> allergenes_detected old = None"
    and "human_feedback new = None \<longrightarrow> human_feedback old = None"
    and "final_recipe new = None \<longrightarrow> final_recipe old = None"
  shows "apply_writes old new = new"
  using assms by (cases new) (auto simp: apply_writes_def split: option.splits)

lemma run_loop_finished:
  "next_nodes cp = [] \<Longrightarrow>
   run_loop client b cp = \<lparr>events = [], failure = None, resting = cp, sent = [], ran = []\<rparr>"
  by (subst run_loop.simps) simp

lemma run_loop_interrupted:
  "next_nodes cp = ''human_feedback_handler'' # ns \<Longrightarrow>
   run_loop client False cp =
     \<lparr>events = [], failure = None, resting = cp, sent = [], ran = []\<rparr>"
  by (subst run_loop.simps) (simp add: interrupt_before_def)

lemma run_loop_generator_raises:
  assumes "next_nodes cp = ''recipe_generator'' # ns"
    and "raised (recipe_generator client (channel_values cp)) = Some e"
  shows "run_loop client b cp =
     \<lparr>events = [], failure = Some e, resting = cp,
      sent = requests (recipe_generator client (channel_values cp)),
      ran = [''recipe_generator'']\<rparr>"
  using assms by (subst run_loop.simps) (simp add: interrupt_before_def nodes_def)

lemma run_loop_generator_returns:
  assumes "next_nodes cp = ''recipe_generator'' # ns"
    and "raised (recipe_generator client (channel_values cp)) = None"
  shows "run_loop client b cp =
     \<lparr>events =
        [\<lparr>node = ''recipe_generator'',
          returned = state_after (recipe_generator client (channel_values cp)),
          shown = apply_writes (channel_values cp)
                    (state_after (recipe_generator client (channel_values cp)))\<rparr>],
      failure = None,
      resting =
        \<lparr>channel_values = apply_writes (channel_values cp)
                    (state_after (recipe_generator client (channel_values cp))),
         next_nodes = [''human_feedback_handler'']\<rparr>,
      sent = requests (recipe_generator client (channel_values cp)),
      ran = [''recipe_generator'']\<rparr>"
proof -
  have next_node: "successor ''recipe_generator''
          (apply_writes (channel_values cp)
             (state_after (recipe_generator client (channel_values cp))))
        = Inr ''human_feedback_handler''"
    by (rule generator_next_node [OF assms(2)])
  show ?thesis
    using assms
    by (subst run_loop.simps)
       (simp add: interrupt_before_def nodes_def next_node END_def Let_def run_loop_interrupted)
qed

lemma run_loop_finalizer:
  assumes "next_nodes cp = ''recipe_finalizer'' # ns"
  shows "run_loop client b cp =
     (case raised (recipe_finalizer client (channel_values cp)) of
        Some e \<Rightarrow>
          \<lparr>events = [], failure = Some e, resting = cp,
           sent = requests (recipe_finalizer client (channel_values cp)),
           ran = [''recipe_finalizer'']\<rparr>
      | None \<Rightarrow>
          \<lparr>events =
             [\<lparr>node = ''recipe_finalizer'',
               returned = state_after (recipe_finalizer client (channel_values cp)),
               shown = apply_writes (channel_values cp)
                         (state_after (recipe_finalizer client (channel_values cp)))\<rparr>],
           failure = None,
           resting =
             \<lparr>channel_values = apply_writes (channel_values cp)
                         (state_after (recipe_finalizer client (channel_values cp))),
              next_nodes = []\<rparr>,
           sent = requests (recipe_finalizer client (channel_values cp)),
           ran = [''recipe_finalizer'']\<rparr>)"
  using assms
  by (subst run_loop.simps)
     (simp add: interrupt_before_def nodes_def successor_finalizer Let_def run_loop_finished
        split: option.splits)

lemma run_loop_resume_handler:
  assumes "next_nodes cp = ''human_feedback_handler'' # ns"
  shows "run_loop client True cp =
     (let vals = (channel_values cp)\<lparr>allergenes_detected := Some False\<rparr>;
          rest = run_loop client False
                   \<lparr>channel_values = vals, next_nodes = [''recipe_finalizer'']\<rparr>
      in rest\<lparr>events :=
                \<lparr>node = ''human_feedback_handler'', returned = vals, shown = vals\<rparr>
                # events rest,
              ran := ''human_feedback_handler'' # ran rest\<rparr>)"
proof -
  have "apply_writes (channel_values cp) ((channel_values cp)\<lparr>allergenes_detected := Some False\<rparr>)
        = (channel_values cp)\<lparr>allergenes_detected := Some False\<rparr>"
    by (rule apply_writes_extends) simp_all
  with assms show ?thesis
    by (subst run_loop.simps)
       (simp add: nodes_def human_feedback_handler_def successor_handler END_def Let_def)
qed

section \<open>A first request\<close>

lemma str_in_prefix: "prefix x s \<Longrightarrow> str_in x s"
  by (cases s) auto

lemma str_in_self_append: "str_in x (x @ b)"
  by (rule str_in_prefix) simp

lemma str_in_append: "str_in x (a @ x @ b)"
  by (induction a) (auto simp: str_in_self_append)

lemma generator_extends:
  assumes "raised (recipe_generator client s) = None"
  shows "apply_writes s (state_after (recipe_generator client s))
         = state_after (recipe_generator client s)"
  using assms by (rule generator_returns) (simp add: apply_writes_extends)

lemma finalizer_extends:
  "apply_writes s (state_after (recipe_finalizer client s))
   = state_after (recipe_finalizer client s)"
  by (rule apply_writes_extends)
     (auto simp: recipe_finalizer_def Let_def split: option.splits)

lemma start_node: "map_of edges START = Some ''recipe_generator''"
  by (simp add: edges_def)

lemma stream_input_returns:
  assumes "raised (recipe_generator client (apply_writes (thread_values memory thread) written)) = None"
  shows "stream client (Some written) thread memory =
    (let out = recipe_generator client (apply_writes (thread_values memory thread) written)
     in (\<lparr>events =
            [\<lparr>node = ''recipe_generator'', returned = state_after out, shown = state_after out\<rparr>],
          failure = None,
          resting = \<lparr>channel_values = state_after out,
                     next_nodes = [''human_feedback_handler'']\<rparr>,
          sent = requests out, ran = [''recipe_generator'']\<rparr>,
         memory(thread \<mapsto>
           \<lparr>channel_values = state_after out, next_nodes = [''human_feedback_handler'']\<rparr>)))"
  using assms
  by (simp add: stream_def start_node Let_def run_loop_generator_returns [where ns = "[]"]
      generator_extends)

lemma stream_input_raises:
  assumes "raised (recipe_generator client (apply_writes (thread_values memory thread) written)) = Some e"
  shows "stream client (Some written) thread memory =
    (let vals = apply_writes (thread_values memory thread) written;
         cp = \<lparr>channel_values = vals, next_nodes = [''recipe_generator'']\<rparr>
     in (\<lparr>events = [], failure = Some e, resting = cp,
          sent = requests (recipe_generator client vals), ran = [''recipe_generator'']\<rparr>,
         memory(thread \<mapsto> cp)))"
  using assms
  by (simp add: stream_def start_node Let_def run_loop_generator_raises [where ns = "[]"])


lemma generator_keys:
  assumes "raised (recipe_generator client s) = None"
  shows "allergenes_detected (state_after (recipe_generator client s)) = Some True"
    and "\<exists>found. allergenes (state_after (recipe_generator client s)) = Some found"
    and "human_feedback (state_after (recipe_generator client s)) = human_feedback s"
  using assms by - (erule generator_returns, simp)+

lemma submit_first_returns:
  assumes "state = None \<or> state = Some empty_dict"
    and "raised (recipe_generator client
           (apply_writes (thread_values memory uid) (initial_state message))) = None"
    and "uid = (case user_id of None \<Rightarrow> uuid4 | Some u \<Rightarrow> if u = [] then uuid4 else u)"
  shows "process_request client uuid4 memory message history state user_id =
    (let out = recipe_generator client
                 (apply_writes (thread_values memory uid) (initial_state message))
     in \<lparr>yielded =
           [([(Some message, ''Generating recipe...'')], initial_state message, uid),
            ([(Some message, ''Generating recipe...''),
              (None,
               ''Are you allergic to any of the following ingredients:\<newline>''
               @ drop 2 (the (allergenes (state_after out)))
               @ ''\<newline>If so, please specify which ones.'')],
             state_after out, uid)],
         error = None,
         saver = memory(uid \<mapsto>
           \<lparr>channel_values = state_after out, next_nodes = [''human_feedback_handler'']\<rparr>),
         asked = requests out,
         executed = [''recipe_generator'']\<rparr>)"
proof -
  note keys = generator_keys [OF assms(2)]
  from keys(2) obtain found where
    found: "allergenes (state_after (recipe_generator client
           (apply_writes (thread_values memory uid) (initial_state message)))) = Some found" ..
  have no_feedback: "human_feedback (initial_state message) = None"
    by (simp add: initial_state_def empty_dict_def)
  from assms(1) show ?thesis
    by (auto simp: process_request_def assms(3) [symmetric] initial_state_def [symmetric]
        no_feedback stream_input_returns [OF assms(2)] Let_def handle_event_def keys(1) found)
qed

lemma submit_first_raises:
  assumes "state = None \<or> state = Some empty_dict"
    and "raised (recipe_generator client
           (apply_writes (thread_values memory uid) (initial_state message))) = Some e"
    and "uid = (case user_id of None \<Rightarrow> uuid4 | Some u \<Rightarrow> if u = [] then uuid4 else u)"
  shows "process_request client uuid4 memory message history state user_id =
    (let vals = apply_writes (thread_values memory uid) (initial_state message)
     in \<lparr>yielded = [([(Some message, ''Generating recipe...'')], initial_state message, uid)],
         error = Some e,
         saver = memory(uid \<mapsto>
           \<lparr>channel_values = vals, next_nodes = [''recipe_generator'']\<rparr>),
         asked = requests (recipe_generator client vals),
         executed = [''recipe_generator'']\<rparr>)"
proof -
  have no_feedback: "human_feedback (initial_state message) = None"
    by (simp add: initial_state_def empty_dict_def)
  from assms(1) show ?thesis
    by (auto simp: process_request_def assms(3) [symmetric] initial_state_def [symmetric]
        no_feedback stream_input_raises [OF assms(2)] Let_def)
qed

lemma fresh_thread_values: "apply_writes (thread_values Map.empty uid) written = written"
  by (rule apply_writes_extends) (simp_all add: thread_values_def empty_dict_def)

lemma no_marker: "str_find ''ALLERGENES FOUND'' ''NO ALLERGENES'' = None"
  by code_simp

text \<open>
  C3, at the failing input: both external calls succeed, the reply to the analysis
  request is \<^verbatim>\<open>NO ALLERGENES\<close>, and \<open>recipe_generator\<close> raises IndexError with the
  recipe already assigned in the dictionary it was given.
\<close>

theorem generator_raises_without_call_failure:
  "scripted ''Lemon cake'' ''NO ALLERGENES'' [] (generate_prompt ''lemon cake'')
     = Some ''Lemon cake''
   \<and> scripted ''Lemon cake'' ''NO ALLERGENES'' [] (analyze_prompt ''Lemon cake'')
     = Some ''NO ALLERGENES''
   \<and> recipe_generator (scripted ''Lemon cake'' ''NO ALLERGENES'' []) (initial_state ''lemon cake'')
     = \<lparr>raised = Some IndexError,
        state_after = (initial_state ''lemon cake'')\<lparr>recipe := Some ''Lemon cake''\<rparr>,
        requests = [generate_prompt ''lemon cake'', analyze_prompt ''Lemon cake'']\<rparr>"
  using generator_without_marker [where state = "initial_state ''lemon cake''"
      and request = "''lemon cake''" and content = "''Lemon cake''"
      and check = "''NO ALLERGENES''"
      and client = "scripted ''Lemon cake'' ''NO ALLERGENES'' []"]
  by (simp add: initial_state_def empty_dict_def no_marker)

text \<open>
  C1, at the failing input: a first request whose analysis reply is \<^verbatim>\<open>NO ALLERGENES\<close>
  ends with IndexError after the first yield; no recipe is shown and the thread rests
  before \<open>recipe_generator\<close>.
\<close>

theorem no_allergenes_reply_fails:
  "process_request (scripted ''Lemon cake'' ''NO ALLERGENES'' []) ''u1'' Map.empty
     ''lemon cake'' [] None None
   = \<lparr>yielded =
        [([(Some ''lemon cake'', ''Generating recipe...'')], initial_state ''lemon cake'', ''u1'')],
      error = Some IndexError,
      saver = Map.empty(''u1'' \<mapsto>
        \<lparr>channel_values = initial_state ''lemon cake'', next_nodes = [''recipe_generator'']\<rparr>),
      asked = [generate_prompt ''lemon cake'', analyze_prompt ''Lemon cake''],
      executed = [''recipe_generator'']\<rparr>"
proof -
  have failed:
    "recipe_generator (scripted ''Lemon cake'' ''NO ALLERGENES'' []) (initial_state ''lemon cake'')
     = \<lparr>raised = Some IndexError,
        state_after = (initial_state ''lemon cake'')\<lparr>recipe := Some ''Lemon cake''\<rparr>,
        requests = [generate_prompt ''lemon cake'', analyze_prompt ''Lemon cake'']\<rparr>"
    by (rule generator_without_marker [where request = "''lemon cake''"
          and content = "''Lemon cake''" and check = "''NO ALLERGENES''"])
       (simp_all add: initial_state_def empty_dict_def no_marker)
  show ?thesis
    by (subst submit_first_raises [where uid = "''u1''" and e = IndexError])
       (simp_all add: fresh_thread_values failed Let_def)
qed

lemma scripted_generator:
  assumes "str_find ''ALLERGENES FOUND'' check = Some i"
  shows "recipe_generator (scripted draft check revision) (initial_state message) =
    \<lparr>raised = None,
     state_after = (initial_state message)
       \<lparr>recipe := Some draft,
        allergenes :=
          Some (str_strip (hd (str_split ''ALLERGENES FOUND''
                                 (drop (i + length ''ALLERGENES FOUND'') check)))),
        allergenes_detected := Some True\<rparr>,
     requests = [generate_prompt message, analyze_prompt draft]\<rparr>"
  by (rule generator_on_marker [where request = message and content = draft and check = check])
     (simp_all add: initial_state_def empty_dict_def assms)

lemma scripted_first_request:
  assumes "str_find ''ALLERGENES FOUND'' check = Some i"
  shows "process_request (scripted draft check revision) uid Map.empty message history None None =
    \<lparr>yielded =
       [([(Some message, ''Generating recipe...'')], initial_state message, uid),
        ([(Some message, ''Generating recipe...''),
          (None,
           ''Are you allergic to any of the following ingredients:\<newline>''
           @ drop 2 (str_strip (hd (str_split ''ALLERGENES FOUND''
                                      (drop (i + length ''ALLERGENES FOUND'') check))))
           @ ''\<newline>If so, please specify which ones.'')],
         (initial_state message)
           \<lparr>recipe := Some draft,
            allergenes :=
              Some (str_strip (hd (str_split ''ALLERGENES FOUND''
                                     (drop (i + length ''ALLERGENES FOUND'') check)))),
            allergenes_detected := Some True\<rparr>,
         uid)],
     error = None,
     saver = Map.empty(uid \<mapsto>
       \<lparr>channel_values = (initial_state message)
           \<lparr>recipe := Some draft,
            allergenes :=
              Some (str_strip (hd (str_split ''ALLERGENES FOUND''
                                     (drop (i + length ''ALLERGENES FOUND'') check)))),
            allergenes_detected := Some True\<rparr>,
        next_nodes = [''human_feedback_handler'']\<rparr>),
     asked = [generate_prompt message, analyze_prompt draft],
     executed = [''recipe_generator'']\<rparr>"
  by (subst submit_first_returns [where uid = uid])
     (simp_all add: fresh_thread_values scripted_generator [OF assms] Let_def)

lemma colon_reply: "str_find ''ALLERGENES FOUND'' ''ALLERGENES FOUND: dairy, eggs'' = Some 0"
  by code_simp

lemma colon_flagged:
  "str_strip (hd (str_split ''ALLERGENES FOUND''
     (drop (0 + length ''ALLERGENES FOUND'') ''ALLERGENES FOUND: dairy, eggs'')))
   = '': dairy, eggs''"
  by code_simp

lemma plain_reply: "str_find ''ALLERGENES FOUND'' ''ALLERGENES FOUND dairy, eggs'' = Some 0"
  by code_simp

lemma plain_flagged:
  "str_strip (hd (str_split ''ALLERGENES FOUND''
     (drop (0 + length ''ALLERGENES FOUND'') ''ALLERGENES FOUND dairy, eggs'')))
   = ''dairy, eggs''"
  by code_simp

lemma plain_prompt:
  "\<not> str_in ''dairy, eggs''
     (''Are you allergic to any of the following ingredients:\<newline>''
      @ drop 2 ''dairy, eggs'' @ ''\<newline>If so, please specify which ones.'')"
  by code_simp

text \<open>
  C9, at the failing input: a first request whose analysis reply is
  \<^verbatim>\<open>ALLERGENES FOUND dairy, eggs\<close>, the marker followed by the allergenes as the
  analysis request asks for. The stored detail (\<open>allergenes\<close>) is \<^verbatim>\<open>dairy, eggs\<close>,
  and the question shown, built from the detail without its first two characters,
  does not contain it.
\<close>

theorem prompt_lacks_detail:
  "allergenes (fst (snd (last (yielded
      (process_request (scripted ''Cookies'' ''ALLERGENES FOUND dairy, eggs'' []) ''u1''
         Map.empty ''chocolate cookies'' [] None None)))))
   = Some ''dairy, eggs''
   \<and> \<not> str_in ''dairy, eggs''
        (snd (last (fst (last (yielded
          (process_request (scripted ''Cookies'' ''ALLERGENES FOUND dairy, eggs'' []) ''u1''
             Map.empty ''chocolate cookies'' [] None None))))))"
proof -
  note first = scripted_first_request [OF plain_reply, unfolded plain_flagged]
  show ?thesis
    using plain_prompt by (simp add: first)
qed

section \<open>A request carrying feedback\<close>

lemma update_state_existing:
  "memory thread = Some cp \<Longrightarrow>
   update_state memory thread vals
   = memory(thread \<mapsto> cp\<lparr>channel_values := apply_writes (channel_values cp) vals\<rparr>)"
  by (simp add: update_state_def)

lemma stream_resume:
  "memory thread = Some cp \<Longrightarrow>
   stream client None thread memory
   = (run_loop client True cp, memory(thread \<mapsto> resting (run_loop client True cp)))"
  by (simp add: stream_def Let_def)

lemma finalizer_writes_result:
  assumes "raised (recipe_finalizer client s) = None"
  shows "\<exists>text. final_recipe (state_after (recipe_finalizer client s)) = Some text"
  using assms by (auto simp: recipe_finalizer_def Let_def split: option.splits if_splits)

lemma run_loop_resume_paused:
  assumes "next_nodes cp = [''human_feedback_handler'']"
  shows "run_loop client True cp =
    (let vals = (channel_values cp)\<lparr>allergenes_detected := Some False\<rparr>;
         out = recipe_finalizer client vals
     in case raised out of
          Some e \<Rightarrow>
            \<lparr>events = [\<lparr>node = ''human_feedback_handler'', returned = vals, shown = vals\<rparr>],
             failure = Some e,
             resting = \<lparr>channel_values = vals, next_nodes = [''recipe_finalizer'']\<rparr>,
             sent = requests out,
             ran = [''human_feedback_handler'', ''recipe_finalizer'']\<rparr>
        | None \<Rightarrow>
            \<lparr>events =
               [\<lparr>node = ''human_feedback_handler'', returned = vals, shown = vals\<rparr>,
                \<lparr>node = ''recipe_finalizer'', returned = state_after out,
                 shown = state_after out\<rparr>],
             failure = None,
             resting = \<lparr>channel_values = state_after out, next_nodes = []\<rparr>,
             sent = requests out,
             ran = [''human_feedback_handler'', ''recipe_finalizer'']\<rparr>)"
  by (simp add: run_loop_resume_handler [OF assms] run_loop_finalizer [where ns = "[]"]
      finalizer_extends Let_def split: option.splits)

lemma handle_handler_event:
  "handle_event history \<lparr>node = ''human_feedback_handler'', returned = a, shown = b\<rparr>
   = Inr history"
  by (simp add: handle_event_def)

lemma handle_finalizer_event:
  "final_recipe a = Some text \<Longrightarrow>
   handle_event history \<lparr>node = ''recipe_finalizer'', returned = a, shown = b\<rparr>
   = Inr (history @ [(None, ''Here's your final recipe:\<newline>\<newline>'' @ text)])"
  by (simp add: handle_event_def)

lemma submit_feedback:
  assumes "state = Some st" and "allergenes_detected st = Some True"
    and "memory uid = Some cp" and "next_nodes cp = [''human_feedback_handler'']"
    and "uid = (case user_id of None \<Rightarrow> uuid4 | Some u \<Rightarrow> if u = [] then uuid4 else u)"
  shows "process_request client uuid4 memory message history state user_id =
    (let state1 = st\<lparr>human_feedback := Some message\<rparr>;
         history1 = history @ [(Some message, ''Updating recipe...'')];
         vals = (apply_writes (channel_values cp) state1)\<lparr>allergenes_detected := Some False\<rparr>;
         out = recipe_finalizer client vals
     in case raised out of
          Some e \<Rightarrow>
            \<lparr>yielded = [(history1, state1, uid), (history1, vals, uid)],
             error = Some e,
             saver = memory(uid \<mapsto>
               \<lparr>channel_values = vals, next_nodes = [''recipe_finalizer'']\<rparr>),
             asked = requests out,
             executed = [''human_feedback_handler'', ''recipe_finalizer'']\<rparr>
        | None \<Rightarrow>
            \<lparr>yielded =
               [(history1, state1, uid), (history1, vals, uid),
                (history1 @
                   [(None, ''Here's your final recipe:\<newline>\<newline>''
                           @ the (final_recipe (state_after out)))],
                 state_after out, uid)],
             error = None,
             saver = memory(uid \<mapsto> \<lparr>channel_values = state_after out, next_nodes = []\<rparr>),
             asked = requests out,
             executed = [''human_feedback_handler'', ''recipe_finalizer'']\<rparr>)"
proof -
  let ?state1 = "st\<lparr>human_feedback := Some message\<rparr>"
  let ?cp = "cp\<lparr>channel_values := apply_writes (channel_values cp) ?state1\<rparr>"
  let ?vals = "(apply_writes (channel_values cp) ?state1)\<lparr>allergenes_detected := Some False\<rparr>"
  have not_empty: "st \<noteq> empty_dict"
    using assms(2) by (auto simp: empty_dict_def)
  have pending: "next_nodes ?cp = [''human_feedback_handler'']"
    using assms(4) by simp
  have updated: "update_state memory uid ?state1 = memory(uid \<mapsto> ?cp)"
    using assms(3) by (simp add: update_state_def)
  have resumed: "stream client None uid (memory(uid \<mapsto> ?cp))
      = (run_loop client True ?cp, memory(uid \<mapsto> resting (run_loop client True ?cp)))"
    using stream_resume [of "memory(uid \<mapsto> ?cp)" uid ?cp client] by simp
  show ?thesis
  proof (cases "raised (recipe_finalizer client ?vals)")
    case None
    from finalizer_writes_result [OF None] obtain final where
      final: "final_recipe (state_after (recipe_finalizer client ?vals)) = Some final" ..
    show ?thesis
      using not_empty None
      by (simp add: process_request_def assms(1,2) assms(5) [symmetric] updated resumed
          run_loop_resume_paused [OF pending] Let_def handle_handler_event
          handle_finalizer_event [OF final] final)
  next
    case (Some e)
    show ?thesis
      using not_empty Some
      by (simp add: process_request_def assms(1,2) assms(5) [symmetric] updated resumed
          run_loop_resume_paused [OF pending] Let_def handle_handler_event)
  qed
qed


lemma finished_session_noop:
  assumes "memory uid = Some cp" and "next_nodes cp = []"
    and "state = Some st" and "human_feedback st \<noteq> None"
    and "allergenes_detected st \<noteq> Some True"
    and "uid = (case user_id of None \<Rightarrow> uuid4 | Some u \<Rightarrow> if u = [] then uuid4 else u)"
  shows "process_request client uuid4 memory message history state user_id =
    \<lparr>yielded = [(history, st, uid)], error = None, saver = memory, asked = [],
     executed = []\<rparr>"
proof -
  have not_empty: "st \<noteq> empty_dict"
    using assms(4) by (auto simp: empty_dict_def)
  have unchanged: "memory(uid \<mapsto> cp) = memory"
    using assms(1) by (rule map_upd_triv)
  show ?thesis
    using not_empty assms(4,5)
    by (simp add: process_request_def assms(3) assms(6) [symmetric]
        stream_resume [where memory = memory and thread = uid, OF assms(1)] run_loop_finished [OF assms(2)] unchanged)
qed

text \<open>
  C8. On a paused session (the thread rests before \<open>human_feedback_handler\<close> and the
  state handed in has \<open>allergenes_detected\<close> true), a request runs
  \<open>human_feedback_handler\<close> and then \<open>recipe_finalizer\<close>, in this order and nothing
  else: \<open>recipe_generator\<close> is not run again, and the only requests sent to the client
  are those of \<open>recipe_finalizer\<close> on the stored values with the feedback written in.
\<close>

theorem feedback_resumes_after_generator:
  assumes "memory uid = Some cp" and "next_nodes cp = [''human_feedback_handler'']"
    and "state = Some st" and "allergenes_detected st = Some True"
    and "uid = (case user_id of None \<Rightarrow> uuid4 | Some u \<Rightarrow> if u = [] then uuid4 else u)"
  shows "executed (process_request client uuid4 memory message history state user_id)
         = [''human_feedback_handler'', ''recipe_finalizer'']
    \<and> ''recipe_generator''
        \<notin> set (executed (process_request client uuid4 memory message history state user_id))
    \<and> asked (process_request client uuid4 memory message history state user_id)
      = requests (recipe_finalizer client
          ((apply_writes (channel_values cp) (st\<lparr>human_feedback := Some message\<rparr>))
             \<lparr>allergenes_detected := Some False\<rparr>))"
proof (cases "raised (recipe_finalizer client
          ((apply_writes (channel_values cp) (st\<lparr>human_feedback := Some message\<rparr>))
             \<lparr>allergenes_detected := Some False\<rparr>))")
  case None
  then show ?thesis
    by (simp add: submit_feedback [where memory = memory and uid = uid, OF assms(3,4,1,2,5)] Let_def)
next
  case (Some e)
  then show ?thesis
    by (simp add: submit_feedback [where memory = memory and uid = uid, OF assms(3,4,1,2,5)] Let_def)
qed

lemma first_call_result:
  "first_call =
    \<lparr>yielded =
       [([(Some ''chocolate cookies'', ''Generating recipe...'')],
         initial_state ''chocolate cookies'', ''u1''),
        ([(Some ''chocolate cookies'', ''Generating recipe...''),
          (None,
           ''Are you allergic to any of the following ingredients:\<newline>''
           @ drop 2 '': dairy, eggs'' @ ''\<newline>If so, please specify which ones.'')],
         (initial_state ''chocolate cookies'')
           \<lparr>recipe := Some ''Cookies'', allergenes := Some '': dairy, eggs'',
            allergenes_detected := Some True\<rparr>,
         ''u1'')],
     error = None,
     saver = Map.empty(''u1'' \<mapsto>
       \<lparr>channel_values = (initial_state ''chocolate cookies'')
           \<lparr>recipe := Some ''Cookies'', allergenes := Some '': dairy, eggs'',
            allergenes_detected := Some True\<rparr>,
        next_nodes = [''human_feedback_handler'']\<rparr>),
     asked = [generate_prompt ''chocolate cookies'', analyze_prompt ''Cookies''],
     executed = [''recipe_generator'']\<rparr>"
  unfolding first_call_def cookies_def
  by (rule scripted_first_request [OF colon_reply, unfolded colon_flagged])

lemma first_call_paused:
  "saver first_call ''u1''
   = Some \<lparr>channel_values = (initial_state ''chocolate cookies'')
               \<lparr>recipe := Some ''Cookies'', allergenes := Some '': dairy, eggs'',
                allergenes_detected := Some True\<rparr>,
            next_nodes = [''human_feedback_handler'']\<rparr>"
  "fst (snd (last (yielded first_call)))
   = (initial_state ''chocolate cookies'')
       \<lparr>recipe := Some ''Cookies'', allergenes := Some '': dairy, eggs'',
        allergenes_detected := Some True\<rparr>"
  "snd (snd (last (yielded first_call))) = ''u1''"
  by (simp_all add: first_call_result)

lemma second_call_input:
  "second_call =
     process_request cookies ''u1'' (saver first_call) ''no dairy please''
       (fst (last (yielded first_call)))
       (Some ((initial_state ''chocolate cookies'')
                \<lparr>recipe := Some ''Cookies'', allergenes := Some '': dairy, eggs'',
                 allergenes_detected := Some True\<rparr>))
       (Some ''u1'')"
  by (simp only: second_call_def first_call_paused)

lemma cookies_finalizer:
  "recipe_finalizer cookies
     ((apply_writes
         ((initial_state ''chocolate cookies'')
            \<lparr>recipe := Some ''Cookies'', allergenes := Some '': dairy, eggs'',
             allergenes_detected := Some True\<rparr>)
         ((initial_state ''chocolate cookies'')
            \<lparr>recipe := Some ''Cookies'', allergenes := Some '': dairy, eggs'',
             allergenes_detected := Some True, human_feedback := Some ''no dairy please''\<rparr>))
        \<lparr>allergenes_detected := Some False\<rparr>)
   = \<lparr>raised = None,
      state_after =
        (initial_state ''chocolate cookies'')
          \<lparr>recipe := Some ''Cookies'', allergenes := Some '': dairy, eggs'',
           allergenes_detected := Some False, human_feedback := Some ''no dairy please'',
           final_recipe := Some ''Vegan cookies''\<rparr>,
      requests = [modify_prompt ''Cookies'' ''no dairy please'']\<rparr>"
  by (simp add: recipe_finalizer_def apply_writes_def initial_state_def empty_dict_def
      cookies_def Let_def)


text \<open>
  The feedback call of the session above: the hypotheses of C8 hold after the first
  call, and the second call runs the two nodes and sends the single revision request.
\<close>

theorem feedback_resumes_after_generator_witness:
  "saver first_call ''u1''
   = Some \<lparr>channel_values = fst (snd (last (yielded first_call))),
            next_nodes = [''human_feedback_handler'']\<rparr>
   \<and> allergenes_detected (fst (snd (last (yielded first_call)))) = Some True
   \<and> executed second_call = [''human_feedback_handler'', ''recipe_finalizer'']
   \<and> asked second_call = [modify_prompt ''Cookies'' ''no dairy please'']"
proof -
  let ?paused = "(initial_state ''chocolate cookies'')
       \<lparr>recipe := Some ''Cookies'', allergenes := Some '': dairy, eggs'',
        allergenes_detected := Some True\<rparr>"
  have flag: "allergenes_detected ?paused = Some True"
    by simp
  have thread: "''u1'' = (case Some ''u1'' of None \<Rightarrow> ''u1''
                  | Some u \<Rightarrow> if u = [] then ''u1'' else u)"
    by simp
  from feedback_resumes_after_generator
    [where memory = "saver first_call" and uid = "''u1''" and client = cookies
       and message = "''no dairy please''" and history = "fst (last (yielded first_call))",
     OF first_call_paused(1) _ refl flag thread]
  have "executed second_call = [''human_feedback_handler'', ''recipe_finalizer'']"
    and "asked second_call = [modify_prompt ''Cookies'' ''no dairy please'']"
    by (simp_all add: second_call_input cookies_finalizer)
  then show ?thesis
    by (simp add: first_call_paused)
qed

section \<open>Calls after the feedback call\<close>




section \<open>Calls on a session that is not waiting for feedback\<close>

lemma submit_unflagged:
  assumes "state = Some st" and "st \<noteq> empty_dict" and "allergenes_detected st \<noteq> Some True"
    and "uid = (case user_id of None \<Rightarrow> uuid4 | Some u \<Rightarrow> if u = [] then uuid4 else u)"
  shows "process_request client uuid4 memory message history state user_id =
    (case stream client (if human_feedback st \<noteq> None then None else Some st) uid memory of
       (r, memory2) \<Rightarrow>
         (case consume history uid (events r) of
            (ys, e) \<Rightarrow>
              \<lparr>yielded = (history, st, uid) # ys,
               error = (case e of None \<Rightarrow> failure r | Some x \<Rightarrow> Some x),
               saver = memory2, asked = sent r, executed = ran r\<rparr>))"
  using assms(2,3) by (simp add: process_request_def assms(1) assms(4) [symmetric])

lemma submit_unflagged_input:
  assumes "state = Some st" and "st \<noteq> empty_dict" and "allergenes_detected st \<noteq> Some True"
    and "uid = (case user_id of None \<Rightarrow> uuid4 | Some u \<Rightarrow> if u = [] then uuid4 else u)"
    and "human_feedback st = None"
  shows "executed (process_request client uuid4 memory message history state user_id)
         = [''recipe_generator'']"
    and "error (process_request client uuid4 memory message history state user_id)
         = raised (recipe_generator client (apply_writes (thread_values memory uid) st))"
    and "asked (process_request client uuid4 memory message history state user_id)
         = requests (recipe_generator client (apply_writes (thread_values memory uid) st))"
proof -
  let ?out = "recipe_generator client (apply_writes (thread_values memory uid) st)"
  let ?r = "process_request client uuid4 memory message history state user_id"
  note call = submit_unflagged [where memory = memory and client = client
      and message = message and history = history, OF assms(1-4)]
  have "executed ?r = [''recipe_generator''] \<and> error ?r = raised ?out
        \<and> asked ?r = requests ?out"
  proof (cases "raised ?out")
    case None
    note keys = generator_keys [OF None]
    from keys(2) obtain found where found: "allergenes (state_after ?out) = Some found" ..
    show ?thesis
      by (simp add: call assms(5) stream_input_returns [OF None] Let_def handle_event_def
          keys(1) found None)
  next
    case (Some e)
    show ?thesis
      by (simp add: call assms(5) stream_input_raises [OF Some] Let_def Some)
  qed
  then show "executed ?r = [''recipe_generator'']" and "error ?r = raised ?out"
    and "asked ?r = requests ?out"
    by simp_all
qed

lemma submit_unflagged_finalizer:
  assumes "state = Some st" and "st \<noteq> empty_dict" and "allergenes_detected st \<noteq> Some True"
    and "uid = (case user_id of None \<Rightarrow> uuid4 | Some u \<Rightarrow> if u = [] then uuid4 else u)"
    and "human_feedback st \<noteq> None"
    and "memory uid = Some cp" and "next_nodes cp = [''recipe_finalizer'']"
  shows "executed (process_request client uuid4 memory message history state user_id)
         = [''recipe_finalizer'']"
    and "error (process_request client uuid4 memory message history state user_id)
         = raised (recipe_finalizer client (channel_values cp))"
proof -
  let ?out = "recipe_finalizer client (channel_values cp)"
  let ?r = "process_request client uuid4 memory message history state user_id"
  note call = submit_unflagged [where memory = memory and client = client
      and message = message and history = history, OF assms(1-4)]
  note resumed = stream_resume [where memory = memory and thread = uid, OF assms(6)]
  have "executed ?r = [''recipe_finalizer''] \<and> error ?r = raised ?out"
  proof (cases "raised ?out")
    case None
    from finalizer_writes_result [OF None] obtain final where
      final: "final_recipe (state_after ?out) = Some final" ..
    show ?thesis
      using assms(5)
      by (simp add: call resumed run_loop_finalizer [OF assms(7)] None
          handle_finalizer_event [OF final])
  next
    case (Some e)
    show ?thesis
      using assms(5)
      by (simp add: call resumed run_loop_finalizer [OF assms(7)] Some)
  qed
  then show "executed ?r = [''recipe_finalizer'']" and "error ?r = raised ?out"
    by simp_all
qed

lemma failed_call_result:
  "failed_call =
    \<lparr>yielded =
       [([(Some ''lemon cake'', ''Generating recipe...'')], initial_state ''lemon cake'', ''u1'')],
     error = Some IndexError,
     saver = Map.empty(''u1'' \<mapsto>
       \<lparr>channel_values = initial_state ''lemon cake'', next_nodes = [''recipe_generator'']\<rparr>),
     asked = [generate_prompt ''lemon cake'', analyze_prompt ''Lemon cake''],
     executed = [''recipe_generator'']\<rparr>"
proof -
  have failed:
    "recipe_generator (scripted ''Lemon cake'' ''NO ALLERGENES'' []) (initial_state ''lemon cake'')
     = \<lparr>raised = Some IndexError,
        state_after = (initial_state ''lemon cake'')\<lparr>recipe := Some ''Lemon cake''\<rparr>,
        requests = [generate_prompt ''lemon cake'', analyze_prompt ''Lemon cake'']\<rparr>"
    by (rule generator_without_marker [where request = "''lemon cake''"
          and content = "''Lemon cake''" and check = "''NO ALLERGENES''"])
       (simp_all add: initial_state_def empty_dict_def no_marker)
  show ?thesis
    unfolding failed_call_def
    by (subst submit_first_raises [where uid = "''u1''" and e = IndexError])
       (simp_all add: fresh_thread_values failed Let_def)
qed

lemma failed_call_left:
  "saver failed_call ''u1''
   = Some \<lparr>channel_values = initial_state ''lemon cake'', next_nodes = [''recipe_generator'']\<rparr>"
  "fst (last (yielded failed_call)) = [(Some ''lemon cake'', ''Generating recipe...'')]"
  "fst (snd (last (yielded failed_call))) = initial_state ''lemon cake''"
  "snd (snd (last (yielded failed_call))) = ''u1''"
  by (simp_all add: failed_call_result)

lemma retry_call_input:
  "retry_call =
     process_request (scripted ''Lemon cake'' ''NO ALLERGENES'' []) ''u2'' (saver failed_call)
       ''lemon cake'' [(Some ''lemon cake'', ''Generating recipe...'')]
       (Some (initial_state ''lemon cake'')) (Some ''u1'')"
  by (simp only: retry_call_def failed_call_left)

lemma retry_generator:
  "recipe_generator (scripted ''Lemon cake'' ''NO ALLERGENES'' [])
     (apply_writes (thread_values (saver failed_call) ''u1'') (initial_state ''lemon cake''))
   = \<lparr>raised = Some IndexError,
      state_after = (initial_state ''lemon cake'')\<lparr>recipe := Some ''Lemon cake''\<rparr>,
      requests = [generate_prompt ''lemon cake'', analyze_prompt ''Lemon cake'']\<rparr>"
proof -
  have "apply_writes (thread_values (saver failed_call) ''u1'') (initial_state ''lemon cake'')
        = initial_state ''lemon cake''"
    by (rule apply_writes_extends)
       (simp_all add: thread_values_def failed_call_left initial_state_def empty_dict_def)
  then show ?thesis
    by (simp add: generator_without_marker [where request = "''lemon cake''"
          and content = "''Lemon cake''" and check = "''NO ALLERGENES''"]
        initial_state_def empty_dict_def no_marker)
qed

lemma initial_state_not_empty: "initial_state message \<noteq> empty_dict"
  by (simp add: initial_state_def empty_dict_def)

lemma initial_state_keys:
  "allergenes_detected (initial_state message) = None"
  "human_feedback (initial_state message) = None"
  by (simp_all add: initial_state_def empty_dict_def)

text \<open>
  C5, as stated: a call on a session that has a checkpoint and is not awaiting input
  is refused and runs no node. It is not: after the failed first request the thread
  has a checkpoint and the state holds no \<open>allergenes_detected\<close>, and the same request
  sent again runs \<open>recipe_generator\<close>; the exception that ends it is the IndexError the
  node raises.
\<close>

theorem retry_runs_generator:
  "saver failed_call ''u1''
   = Some \<lparr>channel_values = initial_state ''lemon cake'', next_nodes = [''recipe_generator'']\<rparr>
   \<and> allergenes_detected (fst (snd (last (yielded failed_call)))) = None
   \<and> executed retry_call = [''recipe_generator'']
   \<and> asked retry_call = [generate_prompt ''lemon cake'', analyze_prompt ''Lemon cake'']
   \<and> error retry_call = Some IndexError"
proof -
  have thread: "''u1'' = (case Some ''u1'' of None \<Rightarrow> ''u2''
                  | Some u \<Rightarrow> if u = [] then ''u2'' else u)"
    by simp
  note again = submit_unflagged_input
    [where memory = "saver failed_call" and uid = "''u1''"
       and client = "scripted ''Lemon cake'' ''NO ALLERGENES'' []"
       and message = "''lemon cake''"
       and history = "[(Some ''lemon cake'', ''Generating recipe...'')]",
     OF refl initial_state_not_empty _ thread initial_state_keys(2)]
  have "executed retry_call = [''recipe_generator'']"
    and "asked retry_call = [generate_prompt ''lemon cake'', analyze_prompt ''Lemon cake'']"
    and "error retry_call = Some IndexError"
    by (simp_all add: retry_call_input again initial_state_keys retry_generator)
  then show ?thesis
    by (simp add: failed_call_left initial_state_keys)
qed

lemma second_call_completed:
  "saver second_call ''u1''
   = Some \<lparr>channel_values =
              (initial_state ''chocolate cookies'')
                \<lparr>recipe := Some ''Cookies'', allergenes := Some '': dairy, eggs'',
                 allergenes_detected := Some False,
                 human_feedback := Some ''no dairy please'',
                 final_recipe := Some ''Vegan cookies''\<rparr>,
            next_nodes = []\<rparr>"
  "fst (snd (last (yielded second_call)))
   = (initial_state ''chocolate cookies'')
       \<lparr>recipe := Some ''Cookies'', allergenes := Some '': dairy, eggs'',
        allergenes_detected := Some False, human_feedback := Some ''no dairy please'',
        final_recipe := Some ''Vegan cookies''\<rparr>"
  "snd (snd (last (yielded second_call))) = ''u1''"
proof -
  have thread: "''u1'' = (case Some ''u1'' of None \<Rightarrow> ''u1''
                  | Some u \<Rightarrow> if u = [] then ''u1'' else u)"
    by simp
  have flag: "allergenes_detected
      ((initial_state ''chocolate cookies'')
         \<lparr>recipe := Some ''Cookies'', allergenes := Some '': dairy, eggs'',
          allergenes_detected := Some True\<rparr>) = Some True"
    by simp
  note call = submit_feedback
    [where memory = "saver first_call" and uid = "''u1''" and client = cookies
       and message = "''no dairy please''" and history = "fst (last (yielded first_call))",
     OF refl flag first_call_paused(1) _ thread, unfolded second_call_input [symmetric]]
  show "saver second_call ''u1''
   = Some \<lparr>channel_values =
              (initial_state ''chocolate cookies'')
                \<lparr>recipe := Some ''Cookies'', allergenes := Some '': dairy, eggs'',
                 allergenes_detected := Some False,
                 human_feedback := Some ''no dairy please'',
                 final_recipe := Some ''Vegan cookies''\<rparr>,
            next_nodes = []\<rparr>"
    by (simp add: call cookies_finalizer Let_def)
  show "fst (snd (last (yielded second_call)))
   = (initial_state ''chocolate cookies'')
       \<lparr>recipe := Some ''Cookies'', allergenes := Some '': dairy, eggs'',
        allergenes_detected := Some False, human_feedback := Some ''no dairy please'',
        final_recipe := Some ''Vegan cookies''\<rparr>"
    by (simp add: call cookies_finalizer Let_def)
  show "snd (snd (last (yielded second_call))) = ''u1''"
    by (simp add: call cookies_finalizer Let_def)
qed

text \<open>
  C5, amended. On a session that has a checkpoint and whose state is non-empty with
  \<open>allergenes_detected\<close> not true, no call is refused and the message is ignored: the
  first yield is the history and the state as given. If the state holds no
  \<open>human_feedback\<close>, \<open>recipe_generator\<close> is run on the stored values overwritten by the
  state, and the call ends with an exception exactly when that node raises. If the
  state holds \<open>human_feedback\<close>, the checkpoint is resumed: a pending
  \<open>recipe_finalizer\<close> is run, and the call ends with an exception exactly when it
  raises; on a finished thread nothing more is yielded, no node is run, no request is
  sent and there is no exception.
\<close>

theorem unflagged_submit_runs_graph:
  assumes "memory uid = Some cp" and "state = Some st" and "st \<noteq> empty_dict"
    and "allergenes_detected st \<noteq> Some True"
    and "uid = (case user_id of None \<Rightarrow> uuid4 | Some u \<Rightarrow> if u = [] then uuid4 else u)"
  shows "hd (yielded (process_request client uuid4 memory message history state user_id))
         = (history, st, uid)
    \<and> (human_feedback st = None \<longrightarrow>
          executed (process_request client uuid4 memory message history state user_id)
            = [''recipe_generator'']
        \<and> error (process_request client uuid4 memory message history state user_id)
            = raised (recipe_generator client (apply_writes (channel_values cp) st)))
    \<and> (human_feedback st \<noteq> None \<and> next_nodes cp = [''recipe_finalizer''] \<longrightarrow>
          executed (process_request client uuid4 memory message history state user_id)
            = [''recipe_finalizer'']
        \<and> error (process_request client uuid4 memory message history state user_id)
            = raised (recipe_finalizer client (channel_values cp)))
    \<and> (human_feedback st \<noteq> None \<and> next_nodes cp = [] \<longrightarrow>
          process_request client uuid4 memory message history state user_id
            = \<lparr>yielded = [(history, st, uid)], error = None, saver = memory, asked = [],
               executed = []\<rparr>)"
proof -
  let ?r = "process_request client uuid4 memory message history state user_id"
  have first_yield: "hd (yielded ?r) = (history, st, uid)"
    by (simp add: submit_unflagged [where memory = memory and client = client
          and message = message and history = history, OF assms(2-5)]
        split: prod.splits)
  have stored: "thread_values memory uid = channel_values cp"
    by (simp add: thread_values_def assms(1))
  have again: "executed ?r = [''recipe_generator'']
      \<and> error ?r = raised (recipe_generator client (apply_writes (channel_values cp) st))"
    if "human_feedback st = None"
    using submit_unflagged_input(1,2) [where memory = memory and client = client
        and message = message and history = history, OF assms(2-5) that]
    by (simp add: stored)
  have pending: "executed ?r = [''recipe_finalizer'']
      \<and> error ?r = raised (recipe_finalizer client (channel_values cp))"
    if "human_feedback st \<noteq> None" and "next_nodes cp = [''recipe_finalizer'']"
    using submit_unflagged_finalizer [where memory = memory and client = client
        and message = message and history = history and uid = uid,
        OF assms(2-5) that(1) assms(1) that(2)]
    by simp
  have finished: "?r = \<lparr>yielded = [(history, st, uid)], error = None, saver = memory,
      asked = [], executed = []\<rparr>"
    if "human_feedback st \<noteq> None" and "next_nodes cp = []"
    by (rule finished_session_noop [where memory = memory and uid = uid,
          OF assms(1) that(2) assms(2) that(1) assms(4,5)])
  from first_yield again pending finished show ?thesis
    by blast
qed

theorem unflagged_submit_runs_graph_witness:
  "hd (yielded retry_call)
   = ([(Some ''lemon cake'', ''Generating recipe...'')], initial_state ''lemon cake'', ''u1'')
   \<and> executed retry_call = [''recipe_generator'']
   \<and> third_call
     = \<lparr>yielded = [last (yielded second_call)], error = None, saver = saver second_call,
        asked = [], executed = []\<rparr>"
proof -
  let ?final = "(initial_state ''chocolate cookies'')
       \<lparr>recipe := Some ''Cookies'', allergenes := Some '': dairy, eggs'',
        allergenes_detected := Some False, human_feedback := Some ''no dairy please'',
        final_recipe := Some ''Vegan cookies''\<rparr>"
  have retry_thread: "''u1'' = (case Some ''u1'' of None \<Rightarrow> ''u2''
                  | Some u \<Rightarrow> if u = [] then ''u2'' else u)"
    by simp
  have thread: "''u1'' = (case Some ''u1'' of None \<Rightarrow> ''u1''
                  | Some u \<Rightarrow> if u = [] then ''u1'' else u)"
    by simp
  have no_flag: "allergenes_detected (initial_state ''lemon cake'') \<noteq> Some True"
    by (simp add: initial_state_keys)
  note retried =
    unflagged_submit_runs_graph
      [where memory = "saver failed_call" and uid = "''u1''"
         and client = "scripted ''Lemon cake'' ''NO ALLERGENES'' []"
         and message = "''lemon cake''"
         and history = "[(Some ''lemon cake'', ''Generating recipe...'')]",
       OF failed_call_left(1) refl initial_state_not_empty no_flag retry_thread,
       unfolded retry_call_input [symmetric]]
  have final_not_empty: "?final \<noteq> empty_dict"
    by (simp add: initial_state_def empty_dict_def)
  have final_flag: "allergenes_detected ?final \<noteq> Some True"
    by simp
  have third: "third_call =
      process_request cookies ''u1'' (saver second_call) ''anything''
        (fst (last (yielded second_call))) (Some ?final) (Some ''u1'')"
    by (simp only: third_call_def second_call_completed)
  note replayed =
    unflagged_submit_runs_graph
      [where memory = "saver second_call" and uid = "''u1''" and client = cookies
         and message = "''anything''" and history = "fst (last (yielded second_call))",
       OF second_call_completed(1) refl final_not_empty final_flag thread,
       unfolded third [symmetric]]
  have whole: "(fst (last (yielded second_call)), ?final, ''u1'')
      = last (yielded second_call)"
    using second_call_completed(2,3) by (metis prod.collapse)
  from retried have first_yield: "hd (yielded retry_call)
      = ([(Some ''lemon cake'', ''Generating recipe...'')], initial_state ''lemon cake'', ''u1'')"
    by (rule conjunct1)
  from retried have again: "executed retry_call = [''recipe_generator'']"
    by (simp add: initial_state_keys)
  from replayed have "third_call
     = \<lparr>yielded = [(fst (last (yielded second_call)), ?final, ''u1'')], error = None,
        saver = saver second_call, asked = [], executed = []\<rparr>"
    by simp
  then have "third_call
     = \<lparr>yielded = [last (yielded second_call)], error = None, saver = saver second_call,
        asked = [], executed = []\<rparr>"
    by (simp only: whole)
  with first_yield again show ?thesis
    by (intro conjI)
qed

end
